theory Spec2Isabelle
  imports Main
begin

section \<open>MotionPitch: the request handler of \<open>app.py\<close>\<close>

text \<open>
  The handler \<open>generate\<close> of \<open>app.py\<close> and the three services of \<open>AIService\<close> it
  calls are embedded as HOL functions. Every remote call (cache creation, document
  upload, planning, image and video generation), every fresh uuid and the completion
  order of the thread pool is read from an explicit record of replies, so that each
  function computes. An exception of the source is a value of \<open>py_error\<close>; the mutable
  state of the process (the cookie session, the global \<open>cached_architect_name\<close>, the
  database table of presentations) is a record that each function returns updated.
  Log lines and \<open>socketio.emit\<close> events change none of the values below and are left out.
\<close>

datatype py_error = ValueError | UnboundLocalError | LookupError | RemoteError | StorageError

subsection \<open>Python truthiness and \<open>int(str)\<close>\<close>

definition truthy :: "string option \<Rightarrow> bool" where
  \<comment> \<open>\<open>if x:\<close> for \<open>x\<close> a string or \<open>None\<close>.\<close>
  "truthy x = (case x of None \<Rightarrow> False | Some s \<Rightarrow> s \<noteq> [])"

definition py_isspace :: "char \<Rightarrow> bool" where
  \<comment> \<open>The ASCII white space that \<open>int\<close> strips: codes 9 to 13 and 28 to 32.\<close>
  "py_isspace c = (let n = (of_char c :: nat) in (9 \<le> n \<and> n \<le> 13) \<or> (28 \<le> n \<and> n \<le> 32))"

definition py_strip :: "string \<Rightarrow> string" where
  "py_strip s = rev (dropWhile py_isspace (rev (dropWhile py_isspace s)))"

definition digit_value :: "char \<Rightarrow> nat option" where
  "digit_value = map_of
     [(CHR ''0'', 0), (CHR ''1'', 1), (CHR ''2'', 2), (CHR ''3'', 3), (CHR ''4'', 4),
      (CHR ''5'', 5), (CHR ''6'', 6), (CHR ''7'', 7), (CHR ''8'', 8), (CHR ''9'', 9)]"

fun parse_digits :: "string \<Rightarrow> bool \<Rightarrow> nat \<Rightarrow> nat option" where
  \<comment> \<open>Decimal digits, single underscores allowed between two digits. The flag says
      that the character before was a digit.\<close>
  "parse_digits [] prev acc = (if prev then Some acc else None)"
| "parse_digits (c # cs) prev acc =
     (case digit_value c of
        Some d \<Rightarrow> parse_digits cs True (acc * 10 + d)
      | None \<Rightarrow> if c = CHR ''_'' \<and> prev then parse_digits cs False acc else None)"

definition py_int :: "string \<Rightarrow> py_error + int" where
  \<comment> \<open>\<open>int(s)\<close> on an ASCII string shorter than the interpreter's digit limit: strip,
      optional sign, digits; anything else raises.\<close>
  "py_int s =
     (case py_strip s of
        [] \<Rightarrow> Inl ValueError
      | c # cs \<Rightarrow>
          if c = CHR ''-'' then
            (case parse_digits cs False 0 of None \<Rightarrow> Inl ValueError | Some n \<Rightarrow> Inr (- int n))
          else if c = CHR ''+'' then
            (case parse_digits cs False 0 of None \<Rightarrow> Inl ValueError | Some n \<Rightarrow> Inr (int n))
          else
            (case parse_digits (c # cs) False 0 of None \<Rightarrow> Inl ValueError | Some n \<Rightarrow> Inr (int n)))"

subsection \<open>Paths and URLs\<close>

definition UPLOAD_FOLDER :: string where
  "UPLOAD_FOLDER = ''static/uploads''"

definition path_join :: "string \<Rightarrow> string \<Rightarrow> string" where
  "path_join d f = d @ ''/'' @ f"

definition url_for_static :: "string \<Rightarrow> string" where
  \<comment> \<open>\<open>url_for('static', filename=f)\<close>\<close>
  "url_for_static f = ''/static/'' @ f"

definition url_for_static_external :: "string \<Rightarrow> string \<Rightarrow> string" where
  \<comment> \<open>\<open>url_for('static', filename=f, _external=True)\<close>, for the host of the request.\<close>
  "url_for_static_external host f = host @ ''/static/'' @ f"

definition url_for_viewer :: "string \<Rightarrow> string" where
  "url_for_viewer pid = ''/viewer/'' @ pid"

subsection \<open>\<open>AIService.get_cached_architect\<close>\<close>

datatype cache_reply = CacheRaises | CacheCreated string

record cache_state =
  cached_architect_name :: "string option"
  cache_calls :: nat

text \<open>
  The global \<open>cached_architect_name\<close> and the number of \<open>client.caches.create\<close> calls
  made so far. The reply to the \<open>k\<close>-th creation call of the process is \<open>api k\<close>.
\<close>

definition get_cached_architect ::
  "(nat \<Rightarrow> cache_reply) \<Rightarrow> cache_state \<Rightarrow> string option \<times> cache_state" where
  "get_cached_architect api st =
     (if \<not> truthy (cached_architect_name st) then
        (case api (cache_calls st) of
           CacheRaises \<Rightarrow> (None, st\<lparr>cache_calls := cache_calls st + 1\<rparr>)
         | CacheCreated name \<Rightarrow>
             (Some name, st\<lparr>cached_architect_name := Some name, cache_calls := cache_calls st + 1\<rparr>))
      else (cached_architect_name st, st))"

fun cached_architect_calls ::
  "(nat \<Rightarrow> cache_reply) \<Rightarrow> nat \<Rightarrow> cache_state \<Rightarrow> string option list \<times> cache_state" where
  \<comment> \<open>\<open>n\<close> calls in a row; the values returned, in order, and the state after.\<close>
  "cached_architect_calls api 0 st = ([], st)"
| "cached_architect_calls api (Suc n) st =
     (let (r, st1) = get_cached_architect api st;
          (rs, st2) = cached_architect_calls api n st1
      in (r # rs, st2))"

definition fresh_process :: cache_state where
  "fresh_process = \<lparr>cached_architect_name = None, cache_calls = 0\<rparr>"

definition usable_reply :: "cache_reply \<Rightarrow> bool" where
  "usable_reply r = (case r of CacheRaises \<Rightarrow> False | CacheCreated name \<Rightarrow> name \<noteq> [])"

subsection \<open>\<open>AIService.generate_video\<close>\<close>

record operation =
  op_done :: bool
  generated_videos :: "string list option"

text \<open>
  \<open>generated_videos\<close> stands for \<open>operation.response\<close>: \<open>None\<close> when there is no
  response, otherwise the list \<open>response.generated_videos\<close>.
\<close>

datatype poll_reply = PollRaises | PollOp operation

record video_api =
  open_image_ok :: bool
  submit_reply :: "operation option"
  poll_replies :: "nat \<Rightarrow> poll_reply"
  download_ok :: bool
  video_uuid :: string

text \<open>
  \<open>open_image_ok\<close>: reading the image file succeeds; \<open>submit_reply\<close>: what
  \<open>client.models.generate_videos\<close> returns (\<open>None\<close>: it raises); \<open>poll_replies k\<close>: the
  reply to the \<open>k\<close>-th \<open>client.operations.get\<close>; \<open>download_ok\<close>: the download succeeds.
\<close>

definition max_polls :: nat where
  "max_polls = 120"

record poll_end =
  last_operation :: operation
  poll_count :: nat
  sleeps :: "nat list"

function poll_loop ::
  "(nat \<Rightarrow> poll_reply) \<Rightarrow> operation \<Rightarrow> nat \<Rightarrow> nat list \<Rightarrow> py_error \<times> nat \<times> nat list + poll_end" where
  \<comment> \<open>The \<open>while\<close> loop; \<open>slept\<close> lists the arguments of \<open>time.sleep\<close> so far.\<close>
  "poll_loop replies op count slept =
     (if \<not> op_done op \<and> count < max_polls then
        (case replies count of
           PollRaises \<Rightarrow> Inl (RemoteError, count, slept @ [5])
         | PollOp op' \<Rightarrow> poll_loop replies op' (count + 1) (slept @ [5]))
      else Inr \<lparr>last_operation = op, poll_count = count, sleeps = slept\<rparr>)"
  by pat_completeness auto
termination
  by (relation "measure (\<lambda>(replies, op, count, slept). max_polls - count)") auto

declare poll_loop.simps [simp del]

record video_run =
  video_url :: "string option"
  polls_made :: nat
  slept_seconds :: "nat list"

definition generate_video_run :: "string \<Rightarrow> video_api \<Rightarrow> string \<Rightarrow> string \<Rightarrow> video_run" where
  \<comment> \<open>The body of \<open>generate_video\<close>, with the polls it made and the sleeps it took.\<close>
  "generate_video_run host api image_path prompt =
     (if \<not> open_image_ok api then \<lparr>video_url = None, polls_made = 0, slept_seconds = []\<rparr>
      else case submit_reply api of
        None \<Rightarrow> \<lparr>video_url = None, polls_made = 0, slept_seconds = []\<rparr>
      | Some op0 \<Rightarrow>
          (case poll_loop (poll_replies api) op0 0 [] of
             Inl (e, n, sl) \<Rightarrow> \<lparr>video_url = None, polls_made = n + 1, slept_seconds = sl\<rparr>
           | Inr pe \<Rightarrow>
               if \<not> op_done (last_operation pe) then
                 \<lparr>video_url = None, polls_made = poll_count pe, slept_seconds = sleeps pe\<rparr>
               else if generated_videos (last_operation pe) = None
                       \<or> generated_videos (last_operation pe) = Some [] then
                 \<lparr>video_url = None, polls_made = poll_count pe, slept_seconds = sleeps pe\<rparr>
               else if \<not> download_ok api then
                 \<lparr>video_url = None, polls_made = poll_count pe, slept_seconds = sleeps pe\<rparr>
               else
                 (let filename = ''veo_'' @ video_uuid api @ ''.mp4''
                  in \<lparr>video_url = Some (url_for_static_external host (''uploads/'' @ filename)),
                      polls_made = poll_count pe, slept_seconds = sleeps pe\<rparr>)))"

definition generate_video :: "string \<Rightarrow> video_api \<Rightarrow> string \<Rightarrow> string \<Rightarrow> string option" where
  "generate_video host api image_path prompt = video_url (generate_video_run host api image_path prompt)"

subsection \<open>\<open>AIService.generate_image\<close>\<close>

datatype image_reply = ImageRaises | ImageNoParts | ImageSaved string

text \<open>
  The reply to the image task of slide \<open>i\<close>: an exception anywhere in the \<open>try\<close> block,
  a response without inline image data, or an image saved under a fresh uuid.
\<close>

definition generate_image ::
  "(nat \<Rightarrow> image_reply) \<Rightarrow> string \<Rightarrow> nat \<Rightarrow> nat \<times> string option \<times> string option" where
  "generate_image api prompt slide_index =
     (case api slide_index of
        ImageRaises \<Rightarrow> (slide_index, None, None)
      | ImageNoParts \<Rightarrow> (slide_index, None, None)
      | ImageSaved u \<Rightarrow>
          (let filename = ''img_'' @ u @ ''.png'';
               filepath = path_join UPLOAD_FOLDER filename
           in (slide_index, Some filename, Some filepath)))"

subsection \<open>\<open>AIService.plan_presentation\<close>\<close>

record slide_spec =
  spec_title :: string
  spec_content :: string
  visual_prompt :: string
  video_prompt :: "string option"

record plan_result =
  plan_title :: string
  plan_slides :: "slide_spec list"

datatype plan_value = PlanFalsy | PlanMalformed | Plan plan_result

text \<open>
  What \<open>json.loads(response.text)\<close> returns: a falsy value (\<open>null\<close>, \<open>{}\<close>, \<open>[]\<close>, \<open>0\<close>,
  \<open>""\<close>, \<open>false\<close>), a truthy value that is not of the schema's shape, or a plan. The
  key \<open>video_prompt\<close> of a slide is read with \<open>.get\<close>, so it may be absent.
\<close>

datatype plan_reply = PlanCallRaises | PlanBadJson | PlanJson plan_value

datatype file_reply = FileRaises | FileState bool

text \<open>\<open>FileState p\<close>: a file reference whose state is \<open>PROCESSING\<close> exactly when \<open>p\<close>.\<close>

partial_function (option) upload_wait :: "(nat \<Rightarrow> file_reply) \<Rightarrow> bool \<Rightarrow> nat \<Rightarrow> bool option" where
  \<comment> \<open>The uncapped \<open>while file_ref.state.name == "PROCESSING"\<close> loop. \<open>Some True\<close>: the
      reference was appended; \<open>Some False\<close>: the \<open>except\<close> branch ran; \<open>None\<close>: no return.\<close>
  "upload_wait gets processing k =
     (if processing then
        (case gets k of
           FileRaises \<Rightarrow> Some False
         | FileState p \<Rightarrow> upload_wait gets p (k + 1))
      else Some True)"

record replies =
  host :: string
  cache_replies :: "nat \<Rightarrow> cache_reply"
  pdf_save_ok :: bool
  pdf_uuid :: string
  upload_reply :: file_reply
  file_get_replies :: "nat \<Rightarrow> file_reply"
  plan_reply :: plan_reply
  image_replies :: "nat \<Rightarrow> image_reply"
  completion_order :: "nat list"
  video :: video_api
  presentation_uuid :: string
  commit_ok :: bool

text \<open>
  Everything one request reads from outside. \<open>completion_order\<close> lists the slide
  indices in the order in which \<open>as_completed\<close> yields their futures.
\<close>

definition upload_pdf :: "replies \<Rightarrow> bool option" where
  "upload_pdf rp =
     (case upload_reply rp of
        FileRaises \<Rightarrow> Some False
      | FileState p \<Rightarrow> upload_wait (file_get_replies rp) p 0)"

definition plan_presentation ::
  "replies \<Rightarrow> string option \<Rightarrow> int \<Rightarrow> string option \<Rightarrow> string option \<Rightarrow> cache_state
     \<Rightarrow> (plan_value option \<times> cache_state) option" where
  \<comment> \<open>The outer \<open>None\<close>: the call does not return. The inner \<open>None\<close>: it returns \<open>None\<close>.\<close>
  "plan_presentation rp topic slide_count pdf_path url_link cs =
     (case (if truthy pdf_path then upload_pdf rp else Some False) of
        None \<Rightarrow> None
      | Some uploaded \<Rightarrow>
          (let (cached_name, cs') = get_cached_architect (cache_replies rp) cs
           in Some (case plan_reply rp of
                      PlanCallRaises \<Rightarrow> None
                    | PlanBadJson \<Rightarrow> None
                    | PlanJson v \<Rightarrow> Some v,
                    cs')))"

subsection \<open>The media batch of \<open>generate\<close>\<close>

record slide_result =
  title :: string
  content :: string
  media_url :: string
  media_type :: string

record loop_state =
  slides :: "slide_result option list"
  media_url_var :: "string option"
  video_runs :: nat

text \<open>
  \<open>slides\<close> is the list of slots (\<open>None\<close> is Python's \<open>None\<close>); \<open>media_url_var\<close> is the
  local variable \<open>media_url\<close> of \<open>generate\<close>, \<open>None\<close> while it is unbound: it is the one
  local that an iteration of the loop may read before assigning it. \<open>video_runs\<close>
  counts the calls of \<open>generate_video\<close>.
\<close>

definition str_of :: "string option \<Rightarrow> string" where
  "str_of x = (case x of None \<Rightarrow> [] | Some s \<Rightarrow> s)"

definition store_slide ::
  "nat \<Rightarrow> slide_spec \<Rightarrow> string \<Rightarrow> string \<Rightarrow> loop_state \<Rightarrow> py_error \<times> loop_state + loop_state" where
  \<comment> \<open>\<open>slides[idx] = {...}\<close> with \<open>'media_url': media_url if img_url else url_for(...)\<close>\<close>
  "store_slide idx s_data img_url mtype st =
     (if img_url \<noteq> [] then
        (case media_url_var st of
           None \<Rightarrow> Inl (UnboundLocalError, st)
         | Some m \<Rightarrow>
             Inr (st\<lparr>slides := (slides st)[idx := Some \<lparr>title = spec_title s_data,
                    content = spec_content s_data, media_url = m, media_type = mtype\<rparr>]\<rparr>))
      else
        Inr (st\<lparr>slides := (slides st)[idx := Some \<lparr>title = spec_title s_data,
               content = spec_content s_data, media_url = url_for_static ''placeholder.png'',
               media_type = mtype\<rparr>]\<rparr>))"

definition loop_body ::
  "replies \<Rightarrow> bool \<Rightarrow> slide_spec list \<Rightarrow> nat \<times> string option \<times> string option \<Rightarrow> loop_state
     \<Rightarrow> py_error \<times> loop_state + loop_state" where
  "loop_body rp enable_video spec_list fut st =
     (case fut of (idx, img_url, local_path) \<Rightarrow>
        (let s_data = spec_list ! idx in
         case img_url of
           None \<Rightarrow> store_slide idx s_data ''placeholder.png'' ''image'' st
         | Some fn \<Rightarrow>
             (let st1 = st\<lparr>media_url_var :=
                          Some (url_for_static_external (host rp) (''uploads/'' @ fn))\<rparr>
              in if enable_video \<and> idx = 0 \<and> truthy (video_prompt s_data) \<and> truthy local_path then
                   (let video_url = generate_video (host rp) (video rp) (str_of local_path)
                                      (str_of (video_prompt s_data));
                        st2 = st1\<lparr>video_runs := video_runs st1 + 1\<rparr>
                    in if truthy video_url
                       then store_slide idx s_data fn ''video'' (st2\<lparr>media_url_var := video_url\<rparr>)
                       else store_slide idx s_data fn ''image'' st2)
                 else store_slide idx s_data fn ''image'' st1)))"

fun process_completed ::
  "replies \<Rightarrow> bool \<Rightarrow> slide_spec list \<Rightarrow> (nat \<times> string option \<times> string option) list \<Rightarrow> loop_state
     \<Rightarrow> py_error \<times> loop_state + loop_state" where
  \<comment> \<open>\<open>for future in as_completed(future_to_slide)\<close>: an exception leaves the loop.\<close>
  "process_completed rp enable_video spec_list [] st = Inr st"
| "process_completed rp enable_video spec_list (fut # futs) st =
     (case loop_body rp enable_video spec_list fut st of
        Inl e \<Rightarrow> Inl e
      | Inr st' \<Rightarrow> process_completed rp enable_video spec_list futs st')"

definition submit_all :: "replies \<Rightarrow> slide_spec list \<Rightarrow> (nat \<times> string option \<times> string option) list" where
  \<comment> \<open>One task per slide, \<open>enumerate\<close> order; the result of the task of slide \<open>i\<close> at \<open>i\<close>.\<close>
  "submit_all rp spec_list =
     map (\<lambda>(i, s). generate_image (image_replies rp) (visual_prompt s) i)
         (zip [0 ..< length spec_list] spec_list)"

definition run_batch :: "replies \<Rightarrow> bool \<Rightarrow> plan_result \<Rightarrow> py_error \<times> loop_state + loop_state" where
  "run_batch rp enable_video plan =
     (let spec_list = plan_slides plan;
          slots = replicate (length spec_list) None;
          futures = submit_all rp spec_list;
          completed = map (\<lambda>k. futures ! k) (completion_order rp)
      in process_completed rp enable_video spec_list completed
           \<lparr>slides = slots, media_url_var = None, video_runs = 0\<rparr>)"

definition valid_order :: "replies \<Rightarrow> plan_result \<Rightarrow> bool" where
  \<comment> \<open>\<open>as_completed\<close> yields every submitted future once.\<close>
  "valid_order rp plan =
     (distinct (completion_order rp) \<and>
      set (completion_order rp) = {0 ..< length (plan_slides plan)})"

subsection \<open>The route \<open>/generate\<close>\<close>

record request =
  g_user :: "nat option"
  form :: "string \<rightharpoonup> string"
  pdf_filename :: "string option"

text \<open>
  \<open>g_user\<close> is the id of \<open>g.user\<close> (\<open>None\<close> for a guest), \<open>form\<close> is \<open>request.form\<close>,
  \<open>pdf_filename\<close> the file name of \<open>request.files.get('pdf_file')\<close> when there is one.
\<close>

record presentation =
  pres_id :: string
  pres_title :: string
  slides_data :: "slide_result option list"
  user_id :: "nat option"
  has_video :: bool

record world =
  guest_usage :: "int option"
  cache :: cache_state
  presentations :: "presentation list"
  image_tasks :: nat
  video_calls :: nat

text \<open>
  \<open>guest_usage\<close> is \<open>session['guest_usage']\<close> (\<open>None\<close> when the key is absent),
  \<open>presentations\<close> the committed rows of the table, \<open>image_tasks\<close> and \<open>video_calls\<close>
  count the image tasks submitted and the calls of \<open>generate_video\<close>.
\<close>

datatype response = JsonError nat string | JsonRedirect string | Raised py_error

text \<open>
  \<open>JsonError status msg\<close> is \<open>jsonify({'success': False, 'error': msg}), status\<close>;
  \<open>JsonRedirect url\<close> is \<open>jsonify({'success': True, 'redirect': url})\<close>; \<open>Raised e\<close> is an
  exception that leaves the view function.
\<close>

definition session_get_usage :: "world \<Rightarrow> int" where
  \<comment> \<open>\<open>session.get('guest_usage', 0)\<close>\<close>
  "session_get_usage w = (case guest_usage w of None \<Rightarrow> 0 | Some u \<Rightarrow> u)"

definition form_slide_count :: "request \<Rightarrow> py_error + int" where
  \<comment> \<open>\<open>int(request.form.get('slide_count', 3))\<close>\<close>
  "form_slide_count req = (case form req ''slide_count'' of None \<Rightarrow> Inr 3 | Some s \<Rightarrow> py_int s)"

definition form_enable_video :: "request \<Rightarrow> bool" where
  \<comment> \<open>\<open>request.form.get('enable_video') == 'true'\<close>\<close>
  "form_enable_video req = (form req ''enable_video'' = Some ''true'')"

definition save_presentation ::
  "replies \<Rightarrow> request \<Rightarrow> bool \<Rightarrow> plan_result \<Rightarrow> slide_result option list \<Rightarrow> world \<Rightarrow> response \<times> world" where
  \<comment> \<open>Step 3 of \<open>generate\<close>: build the row, add, commit, answer with the redirect.\<close>
  "save_presentation rp req enable_video plan slots w =
     (let new_pres = \<lparr>pres_id = presentation_uuid rp, pres_title = plan_title plan,
                       slides_data = slots, user_id = g_user req, has_video = enable_video\<rparr>
      in if commit_ok rp
         then (JsonRedirect (url_for_viewer (pres_id new_pres)),
               w\<lparr>presentations := presentations w @ [new_pres]\<rparr>)
         else (Raised StorageError, w))"

definition generate :: "replies \<Rightarrow> request \<Rightarrow> world \<Rightarrow> (response \<times> world) option" where
  \<comment> \<open>\<open>None\<close>: the view function does not return (the document upload never settles).\<close>
  "generate rp req w =
     (let topic = form req ''topic'' in
      case form_slide_count req of
        Inl e \<Rightarrow> Some (Raised e, w)
      | Inr slide_count \<Rightarrow>
          (let enable_video = form_enable_video req;
               url_link = form req ''url_link'';
               w1 = (if g_user req = None
                     then w\<lparr>guest_usage := Some (session_get_usage w + 1)\<rparr> else w)
           in if truthy (pdf_filename req) \<and> \<not> pdf_save_ok rp then Some (Raised StorageError, w1)
              else
                (let pdf_path = (if truthy (pdf_filename req)
                                 then Some (path_join UPLOAD_FOLDER (''doc_'' @ pdf_uuid rp @ ''.pdf''))
                                 else None)
                 in case plan_presentation rp topic slide_count pdf_path url_link (cache w1) of
                      None \<Rightarrow> None
                    | Some (plan, cs) \<Rightarrow>
                        (let w2 = w1\<lparr>cache := cs\<rparr> in
                         case plan of
                           None \<Rightarrow> Some (JsonError 500 ''Planning Failed'', w2)
                         | Some PlanFalsy \<Rightarrow> Some (JsonError 500 ''Planning Failed'', w2)
                         | Some PlanMalformed \<Rightarrow> Some (Raised LookupError, w2)
                         | Some (Plan p) \<Rightarrow>
                             (let w3 = w2\<lparr>image_tasks := image_tasks w2 + length (plan_slides p)\<rparr> in
                              case run_batch rp enable_video p of
                                Inl (e, st) \<Rightarrow>
                                  Some (Raised e, w3\<lparr>video_calls := video_calls w3 + video_runs st\<rparr>)
                              | Inr st \<Rightarrow>
                                  Some (save_presentation rp req enable_video p (slides st)
                                          (w3\<lparr>video_calls := video_calls w3 + video_runs st\<rparr>)))))))"




definition guest_limit_reached :: response where
  "guest_limit_reached = JsonError 403 ''Guest limit reached (15). Please Register!''"

definition never_done :: "poll_reply \<Rightarrow> bool" where
  \<comment> \<open>The poll returns an operation that is still running.\<close>
  "never_done r = (case r of PollRaises \<Rightarrow> False | PollOp op \<Rightarrow> \<not> op_done op)"

subsection \<open>Concrete inputs\<close>

definition pending_operation :: operation where
  "pending_operation = \<lparr>op_done = False, generated_videos = None\<rparr>"

definition finished_operation :: operation where
  "finished_operation = \<lparr>op_done = True, generated_videos = Some [''video-0'']\<rparr>"

definition stuck_video_api :: video_api where
  "stuck_video_api =
     \<lparr>open_image_ok = True, submit_reply = Some pending_operation,
      poll_replies = (\<lambda>k. PollOp pending_operation), download_ok = True, video_uuid = ''v1''\<rparr>"

definition ready_video_api :: video_api where
  "ready_video_api =
     \<lparr>open_image_ok = True, submit_reply = Some pending_operation,
      poll_replies = (\<lambda>k. PollOp finished_operation), download_ok = True, video_uuid = ''v1''\<rparr>"

definition failing_cache_api :: "nat \<Rightarrow> cache_reply" where
  "failing_cache_api k = CacheRaises"

definition flaky_cache_api :: "nat \<Rightarrow> cache_reply" where
  "flaky_cache_api k = (if k = 0 then CacheRaises else CacheCreated ''cachedContents/c1'')"

definition demo_slide0 :: slide_spec where
  "demo_slide0 =
     \<lparr>spec_title = ''Beyond Binary'', spec_content = ''Qubits'',
      visual_prompt = ''Abstract qubit'', video_prompt = Some ''Slow pan''\<rparr>"

definition demo_slide1 :: slide_spec where
  "demo_slide1 =
     \<lparr>spec_title = ''The Problem'', spec_content = ''Noise'',
      visual_prompt = ''Macro chip'', video_prompt = Some ''Drone shot''\<rparr>"

definition demo_plan :: plan_result where
  "demo_plan = \<lparr>plan_title = ''Quantum Computing'', plan_slides = [demo_slide0, demo_slide1]\<rparr>"

definition one_slide_plan :: plan_result where
  "one_slide_plan = \<lparr>plan_title = ''Quantum Computing'', plan_slides = [demo_slide0]\<rparr>"

definition demo_replies :: replies where
  "demo_replies =
     \<lparr>host = ''http://localhost:5000'', cache_replies = failing_cache_api,
      pdf_save_ok = True, pdf_uuid = ''d1'', upload_reply = FileState True,
      file_get_replies = (\<lambda>k. FileState (k < 2)),
      plan_reply = PlanJson (Plan demo_plan),
      image_replies = (\<lambda>i. if i = 0 then ImageSaved ''a'' else ImageSaved ''b''),
      completion_order = [0, 1], video = ready_video_api,
      presentation_uuid = ''p1'', commit_ok = True\<rparr>"

definition demo_request :: request where
  "demo_request =
     \<lparr>g_user = None,
      form = [''topic'' \<mapsto> ''Quantum Computing'', ''slide_count'' \<mapsto> ''2'',
              ''enable_video'' \<mapsto> ''true''],
      pdf_filename = None\<rparr>"

definition fresh_world :: world where
  "fresh_world =
     \<lparr>guest_usage = None, cache = fresh_process, presentations = [],
      image_tasks = 0, video_calls = 0\<rparr>"

definition cache_inv :: "(nat \<Rightarrow> cache_reply) \<Rightarrow> cache_state \<Rightarrow> bool" where
  \<comment> \<open>The invariant of the cache manager: which creation calls so far were of no use.\<close>
  "cache_inv api st =
     (if truthy (cached_architect_name st)
      then (\<forall>k. Suc k < cache_calls st \<longrightarrow> \<not> usable_reply (api k))
      else (\<forall>k. k < cache_calls st \<longrightarrow> \<not> usable_reply (api k)))"

definition second_image_fails :: replies where
  "second_image_fails =
     demo_replies\<lparr>image_replies := (\<lambda>i. if i = 1 then ImageNoParts else ImageSaved ''a'')\<rparr>"

definition second_fails_first :: replies where
  "second_fails_first = second_image_fails\<lparr>completion_order := [1, 0]\<rparr>"

definition all_images_fail :: replies where
  "all_images_fail = demo_replies\<lparr>image_replies := (\<lambda>i. ImageRaises)\<rparr>"

definition video_times_out :: replies where
  "video_times_out = demo_replies\<lparr>video := stuck_video_api\<rparr>"







definition timeout_presentation :: presentation where
  "timeout_presentation =
     \<lparr>pres_id = ''p1'', pres_title = ''Quantum Computing'',
      slides_data =
        [Some \<lparr>title = ''Beyond Binary'', content = ''Qubits'',
               media_url = ''http://localhost:5000/static/uploads/img_a.png'',
               media_type = ''image''\<rparr>,
         Some \<lparr>title = ''The Problem'', content = ''Noise'',
               media_url = ''http://localhost:5000/static/uploads/img_b.png'',
               media_type = ''image''\<rparr>],
      user_id = None, has_video = True\<rparr>"

section \<open>Verified properties\<close>

subsection \<open>The video poller\<close>

lemma poll_loop_never_done:
  assumes "\<not> op_done op" "count \<le> max_polls"
    and "\<And>k. count \<le> k \<Longrightarrow> k < max_polls \<Longrightarrow> never_done (replies k)"
  shows "\<exists>op'. \<not> op_done op' \<and> poll_loop replies op count slept =
           Inr \<lparr>last_operation = op', poll_count = max_polls,
                sleeps = slept @ replicate (max_polls - count) 5\<rparr>"
  using assms
proof (induction replies op count slept rule: poll_loop.induct)
  case (1 replies op count slept)
  show ?case
  proof (cases "count < max_polls")
    case False
    with "1.prems" have "count = max_polls" by simp
    with "1.prems" show ?thesis by (subst poll_loop.simps) simp
  next
    case True
    with "1.prems"(3)[of count] have "never_done (replies count)" by simp
    then obtain op1 where r: "replies count = PollOp op1" and nd: "\<not> op_done op1"
      by (auto simp: never_done_def split: poll_reply.splits)
    have "\<exists>op'. \<not> op_done op' \<and> poll_loop replies op1 (count + 1) (slept @ [5]) =
           Inr \<lparr>last_operation = op', poll_count = max_polls,
                sleeps = (slept @ [5]) @ replicate (max_polls - (count + 1)) 5\<rparr>"
      using "1.IH"[OF _ r nd] "1.prems" True by simp
    moreover have "(slept @ [5::nat]) @ replicate (max_polls - (count + 1)) 5
                     = slept @ replicate (max_polls - count) 5"
      using True by (cases "max_polls - count") (simp_all add: Suc_diff_Suc)
    ultimately show ?thesis
      using True "1.prems"(1) r by (subst poll_loop.simps) simp
  qed
qed

lemma poll_loop_count_Inr:
  "count \<le> max_polls \<Longrightarrow> poll_loop replies op count slept = Inr pe \<Longrightarrow> poll_count pe \<le> max_polls"
proof (induction replies op count slept rule: poll_loop.induct)
  case (1 replies op count slept)
  show ?case
  proof (cases "\<not> op_done op \<and> count < max_polls")
    case False
    with "1.prems" show ?thesis by (subst (asm) poll_loop.simps) auto
  next
    case True
    with "1.prems"(2) obtain op1 where r: "replies count = PollOp op1"
      and e: "poll_loop replies op1 (count + 1) (slept @ [5]) = Inr pe"
      by (subst (asm) poll_loop.simps) (auto split: poll_reply.splits)
    show ?thesis using "1.IH"[OF True r _ e] True by simp
  qed
qed

lemma poll_loop_count_Inl:
  "poll_loop replies op count slept = Inl (e, n, sl) \<Longrightarrow> n < max_polls"
proof (induction replies op count slept rule: poll_loop.induct)
  case (1 replies op count slept)
  show ?case
  proof (cases "\<not> op_done op \<and> count < max_polls")
    case False
    with "1.prems" show ?thesis by (subst (asm) poll_loop.simps) auto
  next
    case True
    show ?thesis
    proof (cases "replies count")
      case PollRaises
      with True "1.prems" show ?thesis by (subst (asm) poll_loop.simps) auto
    next
      case (PollOp op1)
      with True "1.prems" have "poll_loop replies op1 (count + 1) (slept @ [5]) = Inl (e, n, sl)"
        by (subst (asm) poll_loop.simps) auto
      from "1.IH"[OF True PollOp this] show ?thesis .
    qed
  qed
qed

lemma polls_made_bound: "polls_made (generate_video_run h api p q) \<le> max_polls"
proof (cases "open_image_ok api")
  case False
  then show ?thesis by (simp add: generate_video_run_def)
next
  case True
  show ?thesis
  proof (cases "submit_reply api")
    case None
    with True show ?thesis by (simp add: generate_video_run_def)
  next
    case (Some op0)
    show ?thesis
    proof (cases "poll_loop (poll_replies api) op0 0 []")
      case (Inl a)
      obtain e n sl where a: "a = (e, n, sl)" by (cases a)
      from Inl a have "n < max_polls" using poll_loop_count_Inl by blast
      with True Some Inl a show ?thesis by (simp add: generate_video_run_def)
    next
      case (Inr pe)
      then have "poll_count pe \<le> max_polls" using poll_loop_count_Inr[of 0] by blast
      with True Some Inr show ?thesis by (simp add: generate_video_run_def Let_def)
    qed
  qed
qed

text \<open>
  C6. If the submitted operation never reports completion (every poll returns an
  operation that is not done), \<open>generate_video\<close> sleeps 5 seconds before each poll,
  polls exactly 120 times and returns \<open>None\<close>. Whatever the replies, no run of
  \<open>generate_video\<close> polls more than 120 times.
\<close>

theorem video_poller_timeout:
  fixes api api' :: video_api
  assumes "open_image_ok api" and "submit_reply api = Some op0" and "\<not> op_done op0"
    and "\<forall>k<max_polls. never_done (poll_replies api k)"
  shows "generate_video_run h api p q =
           \<lparr>video_url = None, polls_made = 120, slept_seconds = replicate 120 5\<rparr>
         \<and> generate_video h api p q = None
         \<and> polls_made (generate_video_run h' api' p' q') \<le> 120"
proof -
  from assms(3,4) obtain op' where nd: "\<not> op_done op'"
    and pl: "poll_loop (poll_replies api) op0 0 [] =
               Inr \<lparr>last_operation = op', poll_count = max_polls,
                    sleeps = [] @ replicate (max_polls - 0) 5\<rparr>"
    using poll_loop_never_done[of op0 0 "poll_replies api" "[]"] by auto
  have run: "generate_video_run h api p q =
           \<lparr>video_url = None, polls_made = 120, slept_seconds = replicate 120 5\<rparr>"
    using assms(1,2) nd pl by (simp add: generate_video_run_def max_polls_def)
  moreover from run have "generate_video h api p q = None"
    by (simp add: generate_video_def)
  moreover have "polls_made (generate_video_run h' api' p' q') \<le> 120"
    using polls_made_bound[of h' api' p' q'] by (simp add: max_polls_def)
  ultimately show ?thesis by simp
qed

theorem video_poller_timeout_witness:
  "open_image_ok stuck_video_api \<and> submit_reply stuck_video_api = Some pending_operation
   \<and> \<not> op_done pending_operation
   \<and> never_done (poll_replies stuck_video_api 119)
   \<and> generate_video_run ''h'' stuck_video_api ''p'' ''q'' =
       \<lparr>video_url = None, polls_made = 120, slept_seconds = replicate 120 5\<rparr>
   \<and> generate_video ''h'' stuck_video_api ''p'' ''q'' = None"
proof -
  have a: "open_image_ok stuck_video_api" by (simp add: stuck_video_api_def)
  have b: "submit_reply stuck_video_api = Some pending_operation" by (simp add: stuck_video_api_def)
  have c: "\<not> op_done pending_operation" by (simp add: pending_operation_def)
  have d: "\<forall>k<max_polls. never_done (poll_replies stuck_video_api k)"
    by (simp add: stuck_video_api_def never_done_def pending_operation_def)
  have e: "never_done (poll_replies stuck_video_api 119)"
    by (simp add: stuck_video_api_def never_done_def pending_operation_def)
  show ?thesis using a b c e video_poller_timeout[OF a b c d] by simp
qed

subsection \<open>The cache manager\<close>

lemma cache_inv_step:
  assumes "cache_inv api st"
  shows "cache_inv api (snd (get_cached_architect api st))"
proof (cases "truthy (cached_architect_name st)")
  case True
  with assms show ?thesis by (simp add: get_cached_architect_def)
next
  case False
  with assms have old: "\<And>k. k < cache_calls st \<Longrightarrow> \<not> usable_reply (api k)"
    by (simp add: cache_inv_def)
  show ?thesis
  proof (cases "api (cache_calls st)")
    case CacheRaises
    then have "\<not> usable_reply (api (cache_calls st))" by (simp add: usable_reply_def)
    with old have "\<And>k. k < Suc (cache_calls st) \<Longrightarrow> \<not> usable_reply (api k)"
      using less_Suc_eq by auto
    with False CacheRaises show ?thesis
      by (simp add: get_cached_architect_def cache_inv_def)
  next
    case (CacheCreated name)
    show ?thesis
    proof (cases "name = []")
      case True
      with CacheCreated have "\<not> usable_reply (api (cache_calls st))" by (simp add: usable_reply_def)
      with old have "\<And>k. k < Suc (cache_calls st) \<Longrightarrow> \<not> usable_reply (api k)"
        using less_Suc_eq by auto
      with False CacheCreated True show ?thesis
        by (simp add: get_cached_architect_def cache_inv_def truthy_def)
    next
      case nonempty: False
      with False CacheCreated old show ?thesis
        by (simp add: get_cached_architect_def cache_inv_def truthy_def)
    qed
  qed
qed

lemma cache_inv_calls:
  "cache_inv api st \<Longrightarrow> cache_inv api (snd (cached_architect_calls api n st))"
proof (induction n arbitrary: st)
  case 0
  then show ?case by simp
next
  case (Suc n)
  from Suc.prems have "cache_inv api (snd (get_cached_architect api st))"
    by (rule cache_inv_step)
  from Suc.IH[OF this] show ?case
    by (simp add: case_prod_unfold Let_def)
qed

lemma cache_inv_fresh: "cache_inv api fresh_process"
  by (simp add: cache_inv_def fresh_process_def)

lemma cache_calls_le:
  "cache_calls (snd (cached_architect_calls api n st)) \<le> cache_calls st + n"
proof (induction n arbitrary: st)
  case 0
  then show ?case by simp
next
  case (Suc n)
  have "cache_calls (snd (get_cached_architect api st)) \<le> cache_calls st + 1"
    by (simp add: get_cached_architect_def split: cache_reply.splits)
  with Suc[of "snd (get_cached_architect api st)"] show ?case
    by (simp add: case_prod_unfold Let_def)
qed

text \<open>
  C5 (as the code has it). A call made while a non-empty handle is stored returns that
  handle and makes no remote call. A call made while none is stored makes exactly one
  creation call; when that call fails nothing is stored, so the next call tries again.
  In every run of a fresh process each creation call but the last one failed (or
  returned an empty name): at most one creation succeeds, and \<open>n\<close> calls make at most
  \<open>n\<close> creation calls.
\<close>

theorem cache_one_successful_creation:
  "(truthy (cached_architect_name st) \<longrightarrow>
      get_cached_architect api st = (cached_architect_name st, st))
   \<and> (\<not> truthy (cached_architect_name st) \<and> api (cache_calls st) = CacheRaises \<longrightarrow>
      get_cached_architect api st = (None, st\<lparr>cache_calls := cache_calls st + 1\<rparr>))
   \<and> (\<forall>k. Suc k < cache_calls (snd (cached_architect_calls api n fresh_process)) \<longrightarrow>
         \<not> usable_reply (api k))
   \<and> cache_calls (snd (cached_architect_calls api n fresh_process)) \<le> n"
proof -
  have "cache_inv api (snd (cached_architect_calls api n fresh_process))"
    using cache_inv_fresh by (rule cache_inv_calls)
  then have "\<forall>k. Suc k < cache_calls (snd (cached_architect_calls api n fresh_process)) \<longrightarrow>
         \<not> usable_reply (api k)"
    by (auto simp: cache_inv_def split: if_splits)
  moreover have "cache_calls (snd (cached_architect_calls api n fresh_process)) \<le> n"
    using cache_calls_le[of api n fresh_process] by (simp add: fresh_process_def)
  ultimately show ?thesis
    by (simp add: get_cached_architect_def)
qed

lemma flaky3: "cached_architect_calls flaky_cache_api 3 fresh_process =
       ([None, Some ''cachedContents/c1'', Some ''cachedContents/c1''],
        \<lparr>cached_architect_name = Some ''cachedContents/c1'', cache_calls = 2\<rparr>)"
  by (simp add: numeral_3_eq_3 get_cached_architect_def flaky_cache_api_def fresh_process_def truthy_def)

theorem cache_one_successful_creation_witness:
  "truthy (cached_architect_name \<lparr>cached_architect_name = Some ''cachedContents/c1'', cache_calls = 2\<rparr>)
   \<and> get_cached_architect flaky_cache_api
        \<lparr>cached_architect_name = Some ''cachedContents/c1'', cache_calls = 2\<rparr>
       = (Some ''cachedContents/c1'', \<lparr>cached_architect_name = Some ''cachedContents/c1'', cache_calls = 2\<rparr>)
   \<and> cached_architect_calls flaky_cache_api 3 fresh_process =
       ([None, Some ''cachedContents/c1'', Some ''cachedContents/c1''],
        \<lparr>cached_architect_name = Some ''cachedContents/c1'', cache_calls = 2\<rparr>)
   \<and> \<not> usable_reply (flaky_cache_api 0)"
  using cache_one_successful_creation[of
      "\<lparr>cached_architect_name = Some ''cachedContents/c1'', cache_calls = 2\<rparr>" flaky_cache_api 3]
    flaky3
  by (simp add: truthy_def)

text \<open>
  C5 as stated fails: two calls whose creation fails make two remote creation calls,
  and a call after a failed creation returns the handle when its own creation succeeds.
\<close>

theorem cache_retries_after_failure:
  "cached_architect_calls failing_cache_api 2 fresh_process =
     ([None, None], \<lparr>cached_architect_name = None, cache_calls = 2\<rparr>)
   \<and> cached_architect_calls flaky_cache_api 2 fresh_process =
     ([None, Some ''cachedContents/c1''],
      \<lparr>cached_architect_name = Some ''cachedContents/c1'', cache_calls = 2\<rparr>)"
  by (simp add: numeral_2_eq_2 get_cached_architect_def failing_cache_api_def
        flaky_cache_api_def fresh_process_def truthy_def)

subsection \<open>The media batch\<close>

lemma generate_image_fst: "fst (generate_image api p i) = i"
  by (simp add: generate_image_def Let_def split: image_reply.splits)

lemma submit_all_length: "length (submit_all rp specs) = length specs"
  by (simp add: submit_all_def)

lemma submit_all_nth:
  "i < length specs \<Longrightarrow>
   submit_all rp specs ! i = generate_image (image_replies rp) (visual_prompt (specs ! i)) i"
  by (simp add: submit_all_def)

lemma store_slide_Inr:
  assumes "store_slide idx s_data img mt st = Inr st'"
  shows "\<exists>m. slides st' = (slides st)[idx := Some \<lparr>title = spec_title s_data,
            content = spec_content s_data, media_url = m, media_type = mt\<rparr>]
         \<and> (img \<noteq> [] \<longrightarrow> media_url_var st = Some m)
         \<and> media_url_var st' = media_url_var st \<and> video_runs st' = video_runs st"
  using assms by (auto simp: store_slide_def split: if_splits option.splits)

lemma loop_body_length:
  "loop_body rp ev specs fut st = Inr st' \<Longrightarrow> length (slides st') = length (slides st)"
  by (auto simp: loop_body_def Let_def split: prod.splits option.splits if_splits
           dest!: store_slide_Inr)

lemma loop_body_other:
  "loop_body rp ev specs fut st = Inr st' \<Longrightarrow> j \<noteq> fst fut \<Longrightarrow> slides st' ! j = slides st ! j"
  by (auto simp: loop_body_def Let_def split: prod.splits option.splits if_splits
           dest!: store_slide_Inr)

lemma loop_body_video:
  assumes "loop_body rp ev specs (idx, iu, lp) st = Inr st'" and "idx < length (slides st)"
    and "slides st' ! idx = Some r" and "media_type r = ''video''"
  shows "ev \<and> idx = 0 \<and> iu \<noteq> None \<and> truthy (video_prompt (specs ! idx))"
  using assms
  by (auto simp: loop_body_def Let_def split: option.splits if_splits dest!: store_slide_Inr)



lemma process_completed_append:
  "process_completed rp ev specs (a @ b) st =
     (case process_completed rp ev specs a st of
        Inl e \<Rightarrow> Inl e
      | Inr st1 \<Rightarrow> process_completed rp ev specs b st1)"
  by (induction a arbitrary: st) (auto split: sum.splits)

lemma process_completed_length:
  "process_completed rp ev specs futs st = Inr st' \<Longrightarrow> length (slides st') = length (slides st)"
proof (induction futs arbitrary: st)
  case Nil
  then show ?case by simp
next
  case (Cons f futs)
  then show ?case by (auto split: sum.splits dest: loop_body_length)
qed

lemma process_completed_other:
  "process_completed rp ev specs futs st = Inr st' \<Longrightarrow> j \<notin> fst ` set futs \<Longrightarrow>
   slides st' ! j = slides st ! j"
proof (induction futs arbitrary: st)
  case Nil
  then show ?case by simp
next
  case (Cons f futs)
  from Cons.prems(1) obtain st1 where b: "loop_body rp ev specs f st = Inr st1"
    and r: "process_completed rp ev specs futs st1 = Inr st'"
    by (auto split: sum.splits)
  from Cons.prems(2) have "j \<noteq> fst f" "j \<notin> fst ` set futs" by auto
  with Cons.IH[OF r] loop_body_other[OF b] show ?case by simp
qed

lemma final_slot:
  assumes vo: "valid_order rp plan" and run: "run_batch rp ev plan = Inr st"
    and i: "i < length (plan_slides plan)"
  shows "\<exists>st1 st2. loop_body rp ev (plan_slides plan)
                     (generate_image (image_replies rp) (visual_prompt (plan_slides plan ! i)) i) st1
                   = Inr st2
               \<and> length (slides st1) = length (plan_slides plan)
               \<and> slides st ! i = slides st2 ! i"
proof -
  let ?specs = "plan_slides plan"
  let ?futs = "submit_all rp ?specs"
  let ?f = "\<lambda>k. ?futs ! k"
  let ?st0 = "\<lparr>slides = replicate (length ?specs) None, media_url_var = None, video_runs = 0\<rparr>"
  from vo have d: "distinct (completion_order rp)"
    and s: "set (completion_order rp) = {0 ..< length ?specs}"
    by (simp_all add: valid_order_def)
  from i s have "i \<in> set (completion_order rp)" by simp
  then obtain xs ys where o: "completion_order rp = xs @ i # ys"
    by (auto simp: in_set_conv_decomp)
  with d have nx: "i \<notin> set xs" and ny: "i \<notin> set ys" by auto
  from run o have p: "process_completed rp ev ?specs (map ?f xs @ ?f i # map ?f ys) ?st0 = Inr st"
    by (simp add: run_batch_def Let_def)
  then obtain st1 where p1: "process_completed rp ev ?specs (map ?f xs) ?st0 = Inr st1"
    and p2: "process_completed rp ev ?specs (?f i # map ?f ys) st1 = Inr st"
    by (auto simp: process_completed_append split: sum.splits)
  from p2 obtain st2 where b: "loop_body rp ev ?specs (?f i) st1 = Inr st2"
    and p3: "process_completed rp ev ?specs (map ?f ys) st2 = Inr st"
    by (auto split: sum.splits)
  have fk: "fst (?f k) = k" if "k < length ?specs" for k
    using that by (simp add: submit_all_nth generate_image_fst)
  have "set ys \<subseteq> {0 ..< length ?specs}" using s o by auto
  then have "fst ` set (map ?f ys) = set ys"
    using fk by (force simp: image_iff subset_iff)
  with ny have "i \<notin> fst ` set (map ?f ys)" by simp
  from process_completed_other[OF p3 this] have e: "slides st ! i = slides st2 ! i" .
  from process_completed_length[OF p1] have l: "length (slides st1) = length ?specs" by simp
  from b i have "loop_body rp ev ?specs
       (generate_image (image_replies rp) (visual_prompt (?specs ! i)) i) st1 = Inr st2"
    by (simp add: submit_all_nth)
  with l e show ?thesis by blast
qed

lemma ready_video:
  "generate_video h ready_video_api p q = Some (h @ ''/static/uploads/veo_v1.mp4'')"
  by (simp add: generate_video_def generate_video_run_def ready_video_api_def poll_loop.simps
        pending_operation_def finished_operation_def max_polls_def url_for_static_external_def)

lemma stuck_video: "generate_video h stuck_video_api p q = None"
proof -
  have "\<exists>op'. \<not> op_done op' \<and> poll_loop (poll_replies stuck_video_api) pending_operation 0 [] =
           Inr \<lparr>last_operation = op', poll_count = max_polls,
                sleeps = [] @ replicate (max_polls - 0) 5\<rparr>"
    by (rule poll_loop_never_done)
       (simp_all add: pending_operation_def stuck_video_api_def never_done_def)
  then show ?thesis
    by (auto simp: generate_video_def generate_video_run_def stuck_video_api_def)
qed

lemma demo_futures:
  "submit_all rp (plan_slides demo_plan) =
     [generate_image (image_replies rp) ''Abstract qubit'' 0,
      generate_image (image_replies rp) ''Macro chip'' 1]"
  by (simp add: submit_all_def demo_plan_def demo_slide0_def demo_slide1_def upt_rec)

lemma batch_all_fail:
  "run_batch all_images_fail True demo_plan =
     Inl (UnboundLocalError, \<lparr>slides = [None, None], media_url_var = None, video_runs = 0\<rparr>)"
  by (simp add: run_batch_def demo_futures Let_def)
     (simp add: all_images_fail_def demo_replies_def generate_image_def loop_body_def
        store_slide_def demo_plan_def numeral_2_eq_2)

lemma demo_batch_video:
  "run_batch demo_replies True demo_plan =
     Inr \<lparr>slides =
            [Some \<lparr>title = ''Beyond Binary'', content = ''Qubits'',
                   media_url = ''http://localhost:5000/static/uploads/veo_v1.mp4'',
                   media_type = ''video''\<rparr>,
             Some \<lparr>title = ''The Problem'', content = ''Noise'',
                   media_url = ''http://localhost:5000/static/uploads/img_b.png'',
                   media_type = ''image''\<rparr>],
          media_url_var = Some ''http://localhost:5000/static/uploads/img_b.png'',
          video_runs = 1\<rparr>"
  by (simp add: run_batch_def demo_futures Let_def)
     (simp add: demo_replies_def generate_image_def loop_body_def ready_video truthy_def
        store_slide_def demo_plan_def demo_slide0_def demo_slide1_def Let_def path_join_def
        url_for_static_external_def)

lemma timeout_batch:
  "run_batch video_times_out True demo_plan =
     Inr \<lparr>slides =
            [Some \<lparr>title = ''Beyond Binary'', content = ''Qubits'',
                   media_url = ''http://localhost:5000/static/uploads/img_a.png'',
                   media_type = ''image''\<rparr>,
             Some \<lparr>title = ''The Problem'', content = ''Noise'',
                   media_url = ''http://localhost:5000/static/uploads/img_b.png'',
                   media_type = ''image''\<rparr>],
          media_url_var = Some ''http://localhost:5000/static/uploads/img_b.png'',
          video_runs = 1\<rparr>"
  by (simp add: run_batch_def demo_futures Let_def)
     (simp add: video_times_out_def demo_replies_def generate_image_def loop_body_def stuck_video
        truthy_def store_slide_def demo_plan_def demo_slide0_def demo_slide1_def Let_def path_join_def
        url_for_static_external_def)

lemma demo_valid_order: "valid_order demo_replies demo_plan"
  by (auto simp: valid_order_def demo_replies_def demo_plan_def)


text \<open>
  C3. In the result of a batch, a slide of media type \<open>video\<close> is slide 0 of a
  request with \<open>enable_video\<close>, whose image was saved and whose video prompt is not
  empty. So without \<open>enable_video\<close> no slide is a video, and no slide of index above 0
  ever is.
\<close>

theorem video_only_on_first_slide:
  assumes "valid_order rp plan" and "run_batch rp enable_video plan = Inr st"
    and "i < length (plan_slides plan)" and "slides st ! i = Some r"
    and "media_type r = ''video''"
  shows "enable_video \<and> i = 0
         \<and> (\<exists>u. image_replies rp 0 = ImageSaved u)
         \<and> truthy (video_prompt (plan_slides plan ! 0))"
proof -
  let ?specs = "plan_slides plan"
  let ?g = "generate_image (image_replies rp) (visual_prompt (?specs ! i)) i"
  have "fst ?g = i" by (rule generate_image_fst)
  then obtain iu lp where g: "?g = (i, iu, lp)" by (cases ?g) simp
  from final_slot[OF assms(1,2,3)] g obtain st1 st2 where
    b: "loop_body rp enable_video ?specs (i, iu, lp) st1 = Inr st2"
    and l: "length (slides st1) = length ?specs"
    and e: "slides st ! i = slides st2 ! i" by auto
  from e assms(4) have s: "slides st2 ! i = Some r" by simp
  from assms(3) l have "i < length (slides st1)" by simp
  from loop_body_video[OF b this s assms(5)]
  have v: "enable_video" and z: "i = 0" and n: "iu \<noteq> None"
    and t: "truthy (video_prompt (?specs ! i))" by blast+
  from g n have "\<exists>u. image_replies rp i = ImageSaved u"
    by (auto simp: generate_image_def Let_def split: image_reply.splits)
  with v z t show ?thesis by auto
qed

theorem video_only_on_first_slide_witness:
  "valid_order demo_replies demo_plan
   \<and> run_batch demo_replies True demo_plan =
     Inr \<lparr>slides =
            [Some \<lparr>title = ''Beyond Binary'', content = ''Qubits'',
                   media_url = ''http://localhost:5000/static/uploads/veo_v1.mp4'',
                   media_type = ''video''\<rparr>,
             Some \<lparr>title = ''The Problem'', content = ''Noise'',
                   media_url = ''http://localhost:5000/static/uploads/img_b.png'',
                   media_type = ''image''\<rparr>],
          media_url_var = Some ''http://localhost:5000/static/uploads/img_b.png'',
          video_runs = 1\<rparr>
   \<and> (\<exists>u. image_replies demo_replies 0 = ImageSaved u)
   \<and> truthy (video_prompt (plan_slides demo_plan ! 0))"
proof -
  have i: "(0::nat) < length (plan_slides demo_plan)" by (simp add: demo_plan_def)
  from video_only_on_first_slide[OF demo_valid_order demo_batch_video i, of
      "\<lparr>title = ''Beyond Binary'', content = ''Qubits'',
        media_url = ''http://localhost:5000/static/uploads/veo_v1.mp4'',
        media_type = ''video''\<rparr>"]
  have "(\<exists>u. image_replies demo_replies 0 = ImageSaved u)
        \<and> truthy (video_prompt (plan_slides demo_plan ! 0))" by simp
  with demo_valid_order demo_batch_video show ?thesis by simp
qed



subsection \<open>Concrete requests\<close>

lemma py_int_2: "py_int ''2'' = Inr 2"
  by (simp add: py_int_def py_strip_def py_isspace_def digit_value_def)



lemma py_int_zero: "py_int '' 0 '' = Inr 0"
  by (simp add: py_int_def py_strip_def py_isspace_def digit_value_def)

lemma demo_count: "form_slide_count demo_request = Inr 2"
  by (simp add: form_slide_count_def demo_request_def py_int_2)

lemma demo_upload: "upload_pdf demo_replies = Some True"
  by (simp add: upload_pdf_def demo_replies_def upload_wait.simps)

lemma demo_request_fields:
  "g_user demo_request = None" "pdf_filename demo_request = None"
  "form_enable_video demo_request"
  by (simp_all add: demo_request_def form_enable_video_def)

lemma first_cache_call_fails:
  "get_cached_architect failing_cache_api fresh_process =
     (None, \<lparr>cached_architect_name = None, cache_calls = 1\<rparr>)"
  by (simp add: get_cached_architect_def failing_cache_api_def fresh_process_def truthy_def)

lemma all_fail_generate:
  "generate all_images_fail demo_request fresh_world =
     Some (Raised UnboundLocalError,
           \<lparr>guest_usage = Some 1,
            cache = \<lparr>cached_architect_name = None, cache_calls = 1\<rparr>,
            presentations = [], image_tasks = 2, video_calls = 0\<rparr>)"
proof -
  have p: "plan_reply all_images_fail = PlanJson (Plan demo_plan)"
    "cache_replies all_images_fail = failing_cache_api"
    by (simp_all add: all_images_fail_def demo_replies_def)
  have l: "length (plan_slides demo_plan) = 2" by (simp add: demo_plan_def)
  show ?thesis
    by (simp add: generate_def demo_count demo_request_fields p l batch_all_fail
          plan_presentation_def Let_def truthy_def fresh_world_def session_get_usage_def
          first_cache_call_fails)
qed

subsection \<open>The guest quota\<close>

lemma save_presentation_usage:
  "save_presentation rp req ev p slots w = (resp, w') \<Longrightarrow>
     guest_usage w' = guest_usage w \<and> resp \<noteq> guest_limit_reached"
  by (auto simp: save_presentation_def Let_def guest_limit_reached_def split: if_splits)










lemma demo_plan_fields:
  "length (plan_slides demo_plan) = 2" "plan_title demo_plan = ''Quantum Computing''"
  by (simp_all add: demo_plan_def)









subsection \<open>Planning failures\<close>






subsection \<open>The slide count\<close>




subsection \<open>The stored presentation\<close>

text \<open>
  C10. A request either stores nothing (and is not answered with the redirect), or
  appends one presentation whose \<open>has_video\<close> is the request's \<open>enable_video\<close>,
  whatever the media types of its slides.
\<close>

theorem has_video_is_enable_video:
  assumes "generate rp req w = Some (resp, w')"
  shows "(presentations w' = presentations w \<and> (\<forall>u. resp \<noteq> JsonRedirect u))
         \<or> (\<exists>p. presentations w' = presentations w @ [p]
                \<and> has_video p = form_enable_video req
                \<and> resp = JsonRedirect (url_for_viewer (pres_id p)))"
  using assms
  by (auto simp: generate_def Let_def plan_presentation_def save_presentation_def
      split: sum.splits option.splits plan_value.splits if_splits prod.splits)

lemma video_times_out_fields:
  "plan_reply video_times_out = PlanJson (Plan demo_plan)"
  "cache_replies video_times_out = failing_cache_api"
  "commit_ok video_times_out" "presentation_uuid video_times_out = ''p1''"
  by (simp_all add: video_times_out_def demo_replies_def)

lemma timeout_generate:
  "generate video_times_out demo_request fresh_world =
     Some (JsonRedirect ''/viewer/p1'',
           \<lparr>guest_usage = Some 1,
            cache = \<lparr>cached_architect_name = None, cache_calls = 1\<rparr>,
            presentations = [timeout_presentation], image_tasks = 2, video_calls = 1\<rparr>)"
  by (simp add: generate_def demo_count demo_request_fields video_times_out_fields
        demo_plan_fields timeout_batch plan_presentation_def Let_def truthy_def
        save_presentation_def url_for_viewer_def timeout_presentation_def
        fresh_world_def session_get_usage_def first_cache_call_fails)

theorem has_video_is_enable_video_witness:
  "generate video_times_out demo_request fresh_world =
     Some (JsonRedirect ''/viewer/p1'',
           \<lparr>guest_usage = Some 1,
            cache = \<lparr>cached_architect_name = None, cache_calls = 1\<rparr>,
            presentations = [timeout_presentation], image_tasks = 2, video_calls = 1\<rparr>)
   \<and> has_video timeout_presentation = form_enable_video demo_request
   \<and> has_video timeout_presentation
   \<and> map (map_option media_type) (slides_data timeout_presentation)
       = [Some ''image'', Some ''image'']"
proof -
  from has_video_is_enable_video[OF timeout_generate]
  have "has_video timeout_presentation = form_enable_video demo_request"
    by (simp add: fresh_world_def)
  then show ?thesis
    by (simp add: timeout_generate demo_request_fields timeout_presentation_def)
qed

subsection \<open>Failed images\<close>

text \<open>
  C1, at a failing input: both images of a plan of two slides fail. The first
  iteration of the loop reads \<open>media_url\<close> before any assignment, the batch raises
  \<open>UnboundLocalError\<close> with both slots still empty, and the request stores nothing.
\<close>

theorem all_images_fail_raises:
  "run_batch all_images_fail True demo_plan =
     Inl (UnboundLocalError, \<lparr>slides = [None, None], media_url_var = None, video_runs = 0\<rparr>)
   \<and> generate all_images_fail demo_request fresh_world =
     Some (Raised UnboundLocalError,
           \<lparr>guest_usage = Some 1,
            cache = \<lparr>cached_architect_name = None, cache_calls = 1\<rparr>,
            presentations = [], image_tasks = 2, video_calls = 0\<rparr>)"
  by (simp add: batch_all_fail all_fail_generate)

text \<open>
  C2, at a failing input: the image of slide 1 fails, the one of slide 0 is saved.
  When slide 0 completes first, slide 1 gets the URL of the image of slide 0, not the
  placeholder; when slide 1 completes first, the batch raises \<open>UnboundLocalError\<close>.
\<close>

theorem failed_image_gets_no_placeholder:
  "run_batch second_image_fails False demo_plan =
     Inr \<lparr>slides =
            [Some \<lparr>title = ''Beyond Binary'', content = ''Qubits'',
                   media_url = ''http://localhost:5000/static/uploads/img_a.png'',
                   media_type = ''image''\<rparr>,
             Some \<lparr>title = ''The Problem'', content = ''Noise'',
                   media_url = ''http://localhost:5000/static/uploads/img_a.png'',
                   media_type = ''image''\<rparr>],
          media_url_var = Some ''http://localhost:5000/static/uploads/img_a.png'',
          video_runs = 0\<rparr>
   \<and> run_batch second_fails_first False demo_plan =
     Inl (UnboundLocalError, \<lparr>slides = [None, None], media_url_var = None, video_runs = 0\<rparr>)
   \<and> url_for_static ''placeholder.png'' = ''/static/placeholder.png''"
proof -
  have a: "run_batch second_image_fails False demo_plan =
     Inr \<lparr>slides =
            [Some \<lparr>title = ''Beyond Binary'', content = ''Qubits'',
                   media_url = ''http://localhost:5000/static/uploads/img_a.png'',
                   media_type = ''image''\<rparr>,
             Some \<lparr>title = ''The Problem'', content = ''Noise'',
                   media_url = ''http://localhost:5000/static/uploads/img_a.png'',
                   media_type = ''image''\<rparr>],
          media_url_var = Some ''http://localhost:5000/static/uploads/img_a.png'',
          video_runs = 0\<rparr>"
    by (simp add: run_batch_def demo_futures Let_def)
       (simp add: second_image_fails_def demo_replies_def generate_image_def loop_body_def
          truthy_def store_slide_def demo_plan_def demo_slide0_def demo_slide1_def Let_def
          path_join_def url_for_static_external_def)
  have b: "run_batch second_fails_first False demo_plan =
     Inl (UnboundLocalError, \<lparr>slides = [None, None], media_url_var = None, video_runs = 0\<rparr>)"
    by (simp add: run_batch_def demo_futures Let_def)
       (simp add: second_fails_first_def second_image_fails_def demo_replies_def
          generate_image_def loop_body_def truthy_def store_slide_def demo_plan_def
          demo_slide0_def demo_slide1_def Let_def path_join_def url_for_static_external_def)
  from a b show ?thesis by (simp add: url_for_static_def)
qed

end
